theory Spec2Isabelle
  imports Main
begin

section \<open>Values of the SDKs used by the resource\<close>

text \<open>
  The resource \<open>aws_apprunner_custom_domain_association\<close> lives in
  \<open>internal/service/apprunner/custom_domain_association.go\<close>. Its three operations read and
  write the plugin SDK's \<open>schema.ResourceData\<close> and talk to App Runner through a client.
  A Go pointer is an \<open>option\<close> (\<open>None\<close> is \<open>nil\<close>), a Go \<open>error\<close> value is an
  \<open>error option\<close> (\<open>None\<close> is \<open>nil\<close>).
\<close>

text \<open>\<open>aws.ToString\<close>: the pointed-to string, the empty string for \<open>nil\<close>.\<close>

definition ToString :: "string option \<Rightarrow> string" where
  "ToString p = (case p of None \<Rightarrow> [] | Some s \<Rightarrow> s)"

text \<open>\<open>aws.ToBool\<close>, as \<open>d.Set\<close> stores a \<open>*bool\<close>: the zero value for \<open>nil\<close>.\<close>

definition ToBool :: "bool option \<Rightarrow> bool" where
  "ToBool p = (case p of None \<Rightarrow> False | Some b \<Rightarrow> b)"

text \<open>
  The closed enumeration of error kinds. \<open>ResourceNotFoundException\<close> is the App Runner
  type the source matches with \<open>errs.IsA\<close>; \<open>RemoteError\<close> is any other transport or API
  failure; \<open>MalformedIdentity\<close> is the identity parser's failure; \<open>TerminalFailureError\<close>
  (carrying the failing status) and \<open>TimeoutError\<close> are what a wait reports.
\<close>

datatype error =
    ResourceNotFoundException string
  | RemoteError string
  | MalformedIdentity string
  | TerminalFailureError string
  | TimeoutError

text \<open>\<open>err.Error()\<close>: the text that \<open>%s\<close> prints for an error.\<close>

fun error_message :: "error \<Rightarrow> string" where
  "error_message (ResourceNotFoundException m) = ''ResourceNotFoundException: '' @ m"
| "error_message (RemoteError m) = m"
| "error_message (MalformedIdentity i) = ''unexpected format of ID ('' @ i @ '')''"
| "error_message (TerminalFailureError s) = ''unexpected state '' @ s"
| "error_message TimeoutError = ''timeout while waiting for state''"

text \<open>\<open>errs.IsA[*types.ResourceNotFoundException](err)\<close>; false on a \<open>nil\<close> error.\<close>

fun IsA_ResourceNotFoundException :: "error option \<Rightarrow> bool" where
  "IsA_ResourceNotFoundException (Some (ResourceNotFoundException m)) = True"
| "IsA_ResourceNotFoundException e = False"

text \<open>\<open>diag.Diagnostics\<close>: a list of diagnostics; \<open>nil\<close> is the empty list.\<close>

datatype severity = Error | Warning

record Diagnostic =
  Severity :: severity
  Summary :: string

type_synonym Diagnostics = "Diagnostic list"

text \<open>\<open>diag.Errorf\<close>, applied to the already formatted text.\<close>

definition Errorf :: "string \<Rightarrow> Diagnostics" where
  "Errorf summary = [\<lparr>Severity = Error, Summary = summary\<rparr>]"

text \<open>\<open>diag.FromErr\<close> on a non-nil error.\<close>

definition FromErr :: "error \<Rightarrow> Diagnostics" where
  "FromErr err = [\<lparr>Severity = Error, Summary = error_message err\<rparr>]"

text \<open>\<open>types.CertificateValidationRecord\<close>; \<open>Status\<close> is a string-based enumeration.\<close>

record CertificateValidationRecord =
  cvr_Name :: "string option"
  cvr_Status :: string
  cvr_Type :: "string option"
  cvr_Value :: "string option"

text \<open>\<open>types.CustomDomain\<close>.\<close>

record CustomDomain =
  cd_CertificateValidationRecords :: "CertificateValidationRecord list"
  cd_DomainName :: "string option"
  cd_EnableWWWSubdomain :: "bool option"
  cd_Status :: string

text \<open>\<open>apprunner.AssociateCustomDomainOutput\<close>, the fields the resource reads.\<close>

record AssociateCustomDomainOutput =
  out_CustomDomain :: "CustomDomain option"
  out_DNSTarget :: "string option"
  out_ServiceArn :: "string option"

text \<open>
  \<open>schema.ResourceData\<close> for the schema of \<open>ResourceCustomDomainAssociation\<close>: the
  identifier (\<open>d.Id()\<close>, \<open>d.SetId\<close>), the new-resource mark (\<open>d.IsNewResource()\<close>) and one
  field for each attribute of the schema. \<open>d.Set\<close> of a value of the attribute's own type
  does not fail, so the error branch of the one checked \<open>d.Set\<close> is not reachable and the
  model leaves it out. The records are kept as the list handed to \<open>d.Set\<close>.
\<close>

record ResourceData =
  IdAttr :: string
  IsNewResource :: bool
  certificate_validation_records :: "(string \<rightharpoonup> string) list"
  dns_target :: string
  domain_name :: string
  enable_www_subdomain :: bool
  service_arn :: string
  status :: string

text \<open>
  The remote side. \<open>AssociateCustomDomain\<close> and \<open>DisassociateCustomDomain\<close> are the SDK
  calls (arguments: the fields of the input struct); \<open>FindCustomDomain\<close>,
  \<open>WaitCustomDomainAssociationCreated\<close> and \<open>WaitCustomDomainAssociationDeleted\<close> are helpers
  of the package defined outside this file, taken here as parameters. Each operation
  calls each of them at most once, so a function from the arguments to the Go result
  (value and error) covers every behaviour of the remote side.
\<close>

record Client =
  AssociateCustomDomain ::
    "string \<Rightarrow> bool \<Rightarrow> string \<Rightarrow> AssociateCustomDomainOutput option \<times> error option"
  DisassociateCustomDomain :: "string \<Rightarrow> string \<Rightarrow> error option"
  FindCustomDomain :: "string \<Rightarrow> string \<Rightarrow> CustomDomain option \<times> error option"
  WaitCustomDomainAssociationCreated :: "string \<Rightarrow> string \<Rightarrow> error option"
  WaitCustomDomainAssociationDeleted :: "string \<Rightarrow> string \<Rightarrow> error option"

section \<open>The identity codec\<close>

text \<open>
  The identifier is built in \<open>resourceCustomDomainAssociationCreate\<close> by
  \<open>fmt.Sprintf("%s,%s", ...)\<close>.
\<close>

definition Encode :: "string \<Rightarrow> string \<Rightarrow> string" where
  "Encode domainName serviceArn = domainName @ '','' @ serviceArn"

text \<open>Splitting a string at every occurrence of a separator (\<open>strings.Split\<close>).\<close>

fun split_on :: "char \<Rightarrow> string \<Rightarrow> string list" where
  "split_on c [] = [[]]"
| "split_on c (x # xs) =
     (if x = c then [] # split_on c xs
      else (case split_on c xs of
              [] \<Rightarrow> [[x]]
            | s # ss \<Rightarrow> (x # s) # ss))"

text \<open>
  Modelled from the spec: \<open>CustomDomainAssociationParseID\<close> is called by Read and Delete
  and defined outside this file. The spec (4.1, Decode): it splits on the delimiter and
  fails with \<open>MalformedIdentity\<close> if the split does not yield exactly two segments, or if
  either segment is empty; there is no other validation.
\<close>

definition CustomDomainAssociationParseID :: "string \<Rightarrow> error + (string \<times> string)" where
  "CustomDomainAssociationParseID ident =
     (case split_on CHR '','' ident of
        [a, b] \<Rightarrow> if a = [] \<or> b = [] then Inl (MalformedIdentity ident) else Inr (a, b)
      | _ \<Rightarrow> Inl (MalformedIdentity ident))"

section \<open>The resource operations\<close>

text \<open>
  \<open>flattenCustomDomainCertificateValidationRecords\<close>: the loop appends one map for each
  record to \<open>results\<close>, which starts as the nil slice.
\<close>

definition flattenRecord :: "CertificateValidationRecord \<Rightarrow> (string \<rightharpoonup> string)" where
  "flattenRecord record =
     [''name'' \<mapsto> ToString (cvr_Name record),
      ''status'' \<mapsto> cvr_Status record,
      ''type'' \<mapsto> ToString (cvr_Type record),
      ''value'' \<mapsto> ToString (cvr_Value record)]"

definition flattenCustomDomainCertificateValidationRecords ::
    "CertificateValidationRecord list \<Rightarrow> (string \<rightharpoonup> string) list" where
  "flattenCustomDomainCertificateValidationRecords records =
     foldl (\<lambda>results record. results @ [flattenRecord record]) [] records"

text \<open>
  \<open>resourceCustomDomainAssociationRead\<close>. The result is the resource data after the call
  and the diagnostics returned. The two \<open>log.Printf\<close> warnings are not part of the result.
\<close>

definition resourceCustomDomainAssociationRead ::
    "ResourceData \<Rightarrow> Client \<Rightarrow> ResourceData \<times> Diagnostics" where
  "resourceCustomDomainAssociationRead d conn =
     (case CustomDomainAssociationParseID (IdAttr d) of
        Inl err \<Rightarrow> (d, FromErr err)
      | Inr (domainName, serviceArn) \<Rightarrow>
          (case FindCustomDomain conn domainName serviceArn of
             (customDomain, err) \<Rightarrow>
               if \<not> IsNewResource d \<and> IsA_ResourceNotFoundException err
               then (d\<lparr>IdAttr := []\<rparr>, [])
               else (case customDomain of
                       None \<Rightarrow>
                         if IsNewResource d
                         then (d, Errorf (''reading App Runner Custom Domain Association (''
                                   @ IdAttr d @ ''): empty output after creation''))
                         else (d\<lparr>IdAttr := []\<rparr>, [])
                     | Some cd \<Rightarrow>
                         (d\<lparr>certificate_validation_records :=
                               flattenCustomDomainCertificateValidationRecords
                                 (cd_CertificateValidationRecords cd),
                             domain_name := ToString (cd_DomainName cd),
                             enable_www_subdomain := ToBool (cd_EnableWWWSubdomain cd),
                             service_arn := serviceArn,
                             status := cd_Status cd\<rparr>, []))))"

text \<open>
  \<open>resourceCustomDomainAssociationCreate\<close>. \<open>None\<close> is the nil-pointer panic of
  \<open>output.CustomDomain.DomainName\<close> when the output has no \<open>CustomDomain\<close>.
\<close>

definition resourceCustomDomainAssociationCreate ::
    "ResourceData \<Rightarrow> Client \<Rightarrow> (ResourceData \<times> Diagnostics) option" where
  "resourceCustomDomainAssociationCreate d conn =
     (let domainName = domain_name d; serviceArn = service_arn d in
      case AssociateCustomDomain conn domainName (enable_www_subdomain d) serviceArn of
        (output, err) \<Rightarrow>
          (case err of
             Some e \<Rightarrow>
               Some (d, Errorf (''associating App Runner Custom Domain ('' @ domainName
                       @ '') for Service ('' @ serviceArn @ ''): '' @ error_message e))
           | None \<Rightarrow>
               (case output of
                  None \<Rightarrow>
                    Some (d, Errorf (''associating App Runner Custom Domain ('' @ domainName
                            @ '') for Service ('' @ serviceArn @ ''): empty output''))
                | Some out \<Rightarrow>
                    (case out_CustomDomain out of
                       None \<Rightarrow> None
                     | Some cd \<Rightarrow>
                         (let d1 = d\<lparr>IdAttr := Encode (ToString (cd_DomainName cd))
                                                      (ToString (out_ServiceArn out))\<rparr>;
                              d2 = d1\<lparr>dns_target := ToString (out_DNSTarget out)\<rparr>
                          in case WaitCustomDomainAssociationCreated conn domainName
                                    serviceArn of
                               Some e \<Rightarrow>
                                 Some (d2, Errorf
                                   (''waiting for App Runner Custom Domain Association (''
                                    @ IdAttr d2 @ '') creation: '' @ error_message e))
                             | None \<Rightarrow>
                                 Some (resourceCustomDomainAssociationRead d2 conn))))))"

text \<open>\<open>resourceCustomDomainAssociationDelete\<close>.\<close>

definition resourceCustomDomainAssociationDelete ::
    "ResourceData \<Rightarrow> Client \<Rightarrow> ResourceData \<times> Diagnostics" where
  "resourceCustomDomainAssociationDelete d conn =
     (case CustomDomainAssociationParseID (IdAttr d) of
        Inl err \<Rightarrow> (d, FromErr err)
      | Inr (domainName, serviceArn) \<Rightarrow>
          (let err = DisassociateCustomDomain conn domainName serviceArn in
           if IsA_ResourceNotFoundException err then (d, [])
           else (case err of
                   Some e \<Rightarrow>
                     (d, Errorf (''disassociating App Runner Custom Domain ('' @ domainName
                           @ '') for Service ('' @ serviceArn @ ''): '' @ error_message e))
                 | None \<Rightarrow>
                     (case WaitCustomDomainAssociationDeleted conn domainName serviceArn of
                        Some e \<Rightarrow>
                          if IsA_ResourceNotFoundException (Some e) then (d, [])
                          else (d, Errorf
                                  (''waiting for App Runner Custom Domain Association (''
                                   @ IdAttr d @ '') deletion: '' @ error_message e))
                      | None \<Rightarrow> (d, [])))))"

section \<open>The waiter\<close>

text \<open>
  Modelled from the spec: \<open>WaitCustomDomainAssociationCreated\<close> and
  \<open>WaitCustomDomainAssociationDeleted\<close> are defined outside this file, and so is the polling
  loop they run. The spec (4.3): the waiter is parameterised by a polling function
  returning an observation (a status value or the absent marker) or failing with a
  transport error, a set of success observations, a set of terminal-failure statuses, a
  poll interval and a deadline. It repeats: call the probe; a transport error is
  propagated at once as \<open>ProbeError\<close>; an observation in the success set ends in
  \<open>Succeeded\<close>; one in the failure set ends in \<open>Failed\<close> with an error naming the status;
  otherwise, if the deadline has passed, it ends in \<open>TimedOut\<close>; otherwise it sleeps for
  the poll interval and repeats.

  The probe is a function of the number of calls made before; time is counted in the
  unit of the interval and only sleeping takes time. With an interval of zero and a
  deadline not yet passed the loop need not end, so it is a partial function: \<open>None\<close> is
  a run that never returns. The result is the outcome and the number of probes issued.
\<close>

datatype Observation = Absent | StatusValue string

datatype WaitOutcome = Succeeded Observation | Failed string | TimedOut | ProbeError error

fun outcome_error :: "WaitOutcome \<Rightarrow> error option" where
  "outcome_error (Succeeded obs) = None"
| "outcome_error (Failed s) = Some (TerminalFailureError s)"
| "outcome_error TimedOut = Some TimeoutError"
| "outcome_error (ProbeError e) = Some e"

record WaiterConfig =
  success :: "Observation set"
  failure :: "string set"
  interval :: nat
  deadline :: nat

fun in_failure :: "WaiterConfig \<Rightarrow> Observation \<Rightarrow> bool" where
  "in_failure cfg Absent = False"
| "in_failure cfg (StatusValue s) = (s \<in> failure cfg)"

fun failing_status :: "Observation \<Rightarrow> string" where
  "failing_status Absent = []"
| "failing_status (StatusValue s) = s"

partial_function (option) waiter_loop ::
    "WaiterConfig \<Rightarrow> (nat \<Rightarrow> error + Observation) \<Rightarrow> nat \<Rightarrow> nat
       \<Rightarrow> (WaitOutcome \<times> nat) option" where
  "waiter_loop cfg probe n elapsed =
     (case probe n of
        Inl e \<Rightarrow> Some (ProbeError e, Suc n)
      | Inr obs \<Rightarrow>
          if obs \<in> success cfg then Some (Succeeded obs, Suc n)
          else if in_failure cfg obs then Some (Failed (failing_status obs), Suc n)
          else if deadline cfg \<le> elapsed then Some (TimedOut, Suc n)
          else waiter_loop cfg probe (Suc n) (elapsed + interval cfg))"

declare waiter_loop.simps [code]

definition Waiter ::
    "WaiterConfig \<Rightarrow> (nat \<Rightarrow> error + Observation) \<Rightarrow> (WaitOutcome \<times> nat) option" where
  "Waiter cfg probe = waiter_loop cfg probe 0 0"

text \<open>
  The loop goes on after probe \<open>n\<close>, made at time \<open>elapsed\<close>: the probe returned an
  observation that is in neither set, and the deadline has not passed.
\<close>

definition keeps_polling ::
    "WaiterConfig \<Rightarrow> (nat \<Rightarrow> error + Observation) \<Rightarrow> nat \<Rightarrow> nat \<Rightarrow> bool" where
  "keeps_polling cfg probe elapsed n =
     (case probe n of
        Inl e \<Rightarrow> False
      | Inr obs \<Rightarrow> obs \<notin> success cfg \<and> \<not> in_failure cfg obs \<and> elapsed < deadline cfg)"

section \<open>Sample inputs\<close>

definition sample_record :: CertificateValidationRecord where
  "sample_record =
     \<lparr>cvr_Name = Some ''_a1.example.com'', cvr_Status = ''PENDING_VALIDATION'',
      cvr_Type = Some ''CNAME'', cvr_Value = Some ''_b2.acm-validations.aws''\<rparr>"

definition sample_domain :: CustomDomain where
  "sample_domain =
     \<lparr>cd_CertificateValidationRecords = [sample_record],
      cd_DomainName = Some ''example.com'',
      cd_EnableWWWSubdomain = Some True,
      cd_Status = ''active''\<rparr>"

definition sample_output :: AssociateCustomDomainOutput where
  "sample_output =
     \<lparr>out_CustomDomain = Some sample_domain,
      out_DNSTarget = Some ''abc.awsapprunner.com'',
      out_ServiceArn = Some ''svc-1''\<rparr>"

text \<open>A remote side on which every call succeeds.\<close>

definition sample_client :: Client where
  "sample_client =
     \<lparr>AssociateCustomDomain = (\<lambda>domainName enable serviceArn. (Some sample_output, None)),
      DisassociateCustomDomain = (\<lambda>domainName serviceArn. None),
      FindCustomDomain = (\<lambda>domainName serviceArn. (Some sample_domain, None)),
      WaitCustomDomainAssociationCreated = (\<lambda>domainName serviceArn. None),
      WaitCustomDomainAssociationDeleted = (\<lambda>domainName serviceArn. None)\<rparr>"

text \<open>The data of a resource that exists, and of one that is being created.\<close>

definition existing_resource :: ResourceData where
  "existing_resource =
     \<lparr>IdAttr = ''example.com,svc-1'', IsNewResource = False,
      certificate_validation_records = [], dns_target = ''abc.awsapprunner.com'',
      domain_name = ''example.com'', enable_www_subdomain = True,
      service_arn = ''svc-1'', status = ''active''\<rparr>"

definition planned_resource :: ResourceData where
  "planned_resource =
     \<lparr>IdAttr = [], IsNewResource = True,
      certificate_validation_records = [], dns_target = [],
      domain_name = ''Example.COM'', enable_www_subdomain = True,
      service_arn = ''svc-1'', status = []\<rparr>"

definition sample_config :: WaiterConfig where
  "sample_config =
     \<lparr>success = {StatusValue ''active''}, failure = {''create-failed''},
      interval = 5, deadline = 600\<rparr>"

definition sample_probe :: "nat \<Rightarrow> error + Observation" where
  "sample_probe n =
     (if n = 0 then Inr (StatusValue ''pending'') else Inr (StatusValue ''create-failed''))"

section \<open>Properties of the record mapping\<close>

lemma flatten_foldl:
  "foldl (\<lambda>results record. results @ [flattenRecord record]) acc records
     = acc @ map flattenRecord records"
  by (induction records arbitrary: acc) simp_all

lemma flatten_is_map:
  "flattenCustomDomainCertificateValidationRecords records = map flattenRecord records"
  by (simp add: flattenCustomDomainCertificateValidationRecords_def flatten_foldl)

lemma dom_flattenRecord:
  "dom (flattenRecord r) = {''name'', ''status'', ''type'', ''value''}"
  by (auto simp: flattenRecord_def)

text \<open>
  C10. The mapping of the remote certificate validation records keeps their number and
  their order: the result has the length of the input, and its entry at each position
  is the map with exactly the four keys \<open>name\<close>, \<open>status\<close>, \<open>type\<close> and \<open>value\<close>, whose
  values are taken from the remote record at the same position.
\<close>

theorem flatten_preserves_records:
  "length (flattenCustomDomainCertificateValidationRecords records) = length records \<and>
   (\<forall>i < length records.
      flattenCustomDomainCertificateValidationRecords records ! i =
        [''name'' \<mapsto> ToString (cvr_Name (records ! i)),
         ''status'' \<mapsto> cvr_Status (records ! i),
         ''type'' \<mapsto> ToString (cvr_Type (records ! i)),
         ''value'' \<mapsto> ToString (cvr_Value (records ! i))] \<and>
      dom (flattenCustomDomainCertificateValidationRecords records ! i) =
        {''name'', ''status'', ''type'', ''value''})"
proof (intro conjI allI impI)
  show "length (flattenCustomDomainCertificateValidationRecords records) = length records"
    by (simp add: flatten_is_map)
next
  fix i assume "i < length records"
  then have at_i: "flattenCustomDomainCertificateValidationRecords records ! i
      = flattenRecord (records ! i)"
    by (simp add: flatten_is_map)
  show "flattenCustomDomainCertificateValidationRecords records ! i =
        [''name'' \<mapsto> ToString (cvr_Name (records ! i)),
         ''status'' \<mapsto> cvr_Status (records ! i),
         ''type'' \<mapsto> ToString (cvr_Type (records ! i)),
         ''value'' \<mapsto> ToString (cvr_Value (records ! i))]"
    unfolding at_i by (simp add: flattenRecord_def)
  show "dom (flattenCustomDomainCertificateValidationRecords records ! i) =
        {''name'', ''status'', ''type'', ''value''}"
    unfolding at_i by (rule dom_flattenRecord)
qed

theorem flatten_preserves_records_witness:
  "length (flattenCustomDomainCertificateValidationRecords
             [sample_record, sample_record\<lparr>cvr_Name := None\<rparr>]) = 2 \<and>
   (flattenCustomDomainCertificateValidationRecords
      [sample_record, sample_record\<lparr>cvr_Name := None\<rparr>] ! 1) ''name'' = Some [] \<and>
   (flattenCustomDomainCertificateValidationRecords
      [sample_record, sample_record\<lparr>cvr_Name := None\<rparr>] ! 0) ''name''
     = Some ''_a1.example.com''"
  using flatten_preserves_records [of "[sample_record, sample_record\<lparr>cvr_Name := None\<rparr>]"]
  by (simp add: sample_record_def ToString_def)

section \<open>Properties of the identity codec\<close>

lemma split_on_not_Nil: "split_on c xs \<noteq> []"
  by (induction xs) (auto split: list.splits)

lemma split_on_no_sep: "c \<notin> set a \<Longrightarrow> split_on c a = [a]"
  by (induction a) auto

lemma split_on_append_sep:
  "c \<notin> set a \<Longrightarrow> split_on c (a @ c # rest) = a # split_on c rest"
  by (induction a) auto

lemma split_on_two: "c \<notin> set a \<Longrightarrow> c \<notin> set b \<Longrightarrow> split_on c (a @ c # b) = [a, b]"
  by (simp add: split_on_append_sep split_on_no_sep)

lemma split_on_segments: "s \<in> set (split_on c xs) \<Longrightarrow> c \<notin> set s"
  by (induction xs arbitrary: s) (auto split: if_splits list.splits)

lemma split_on_single: "split_on c xs = [a] \<Longrightarrow> xs = a"
  by (induction xs arbitrary: a) (auto split: if_splits list.splits simp: split_on_not_Nil)

lemma split_on_pair: "split_on c xs = [a, b] \<Longrightarrow> xs = a @ c # b"
proof (induction xs arbitrary: a)
  case Nil
  then show ?case by simp
next
  case (Cons x xs)
  show ?case
  proof (cases "x = c")
    case True
    with Cons.prems have "a = []" and "split_on c xs = [b]" by simp_all
    then show ?thesis using True by (simp add: split_on_single)
  next
    case False
    with Cons.prems obtain a' where "a = x # a'" and "split_on c xs = [a', b]"
      by (auto split: list.splits)
    then show ?thesis using Cons.IH by simp
  qed
qed

lemma ParseID_accepts:
  "a \<noteq> [] \<Longrightarrow> b \<noteq> [] \<Longrightarrow> CHR '','' \<notin> set a \<Longrightarrow> CHR '','' \<notin> set b
     \<Longrightarrow> CustomDomainAssociationParseID (a @ '','' @ b) = Inr (a, b)"
  by (simp add: CustomDomainAssociationParseID_def split_on_two)

lemma ParseID_Inr_iff:
  "CustomDomainAssociationParseID ident = Inr (a, b) \<longleftrightarrow>
     ident = a @ '','' @ b \<and> a \<noteq> [] \<and> b \<noteq> []
       \<and> CHR '','' \<notin> set a \<and> CHR '','' \<notin> set b"
proof
  assume "CustomDomainAssociationParseID ident = Inr (a, b)"
  then have s: "split_on CHR '','' ident = [a, b]" and ne: "a \<noteq> []" "b \<noteq> []"
    by (auto simp: CustomDomainAssociationParseID_def split: list.splits if_splits)
  from s have "ident = a @ CHR '','' # b" by (rule split_on_pair)
  moreover from s have "CHR '','' \<notin> set a" "CHR '','' \<notin> set b"
    using split_on_segments [of a "CHR '',''" ident]
      split_on_segments [of b "CHR '',''" ident] by simp_all
  ultimately show "ident = a @ '','' @ b \<and> a \<noteq> [] \<and> b \<noteq> []
      \<and> CHR '','' \<notin> set a \<and> CHR '','' \<notin> set b"
    using ne by simp
next
  assume "ident = a @ '','' @ b \<and> a \<noteq> [] \<and> b \<noteq> []
      \<and> CHR '','' \<notin> set a \<and> CHR '','' \<notin> set b"
  then show "CustomDomainAssociationParseID ident = Inr (a, b)"
    using ParseID_accepts [of a b] by simp
qed

text \<open>
  C6. Round trip of the identity codec: for all non-empty strings \<open>a\<close> and \<open>b\<close> that do
  not contain the delimiter, decoding the encoding of \<open>a\<close> and \<open>b\<close> (the two fields
  joined by the delimiter, as Create builds the identifier) gives back \<open>(a, b)\<close>.
\<close>

theorem Decode_Encode_roundtrip:
  assumes "a \<noteq> []" and "b \<noteq> []"
    and "CHR '','' \<notin> set a" and "CHR '','' \<notin> set b"
  shows "CustomDomainAssociationParseID (Encode a b) = Inr (a, b)"
  unfolding Encode_def using assms by (rule ParseID_accepts)

theorem Decode_Encode_roundtrip_witness:
  "Encode ''example.com'' ''svc-1'' = ''example.com,svc-1'' \<and>
   CustomDomainAssociationParseID (Encode ''example.com'' ''svc-1'')
     = Inr (''example.com'', ''svc-1'')"
  using Decode_Encode_roundtrip [of "''example.com''" "''svc-1''"]
  by (simp add: Encode_def)

text \<open>
  C7. For every input string, decoding fails with \<open>MalformedIdentity\<close> if splitting on
  the delimiter does not yield exactly two segments or if one of the segments is empty,
  and there is no other validation: in every other case it returns the two segments,
  so that the strings accepted are exactly those of the form \<open>a,b\<close> with \<open>a\<close> and \<open>b\<close>
  non-empty and free of the delimiter.
\<close>

theorem ParseID_malformed_iff:
  "CustomDomainAssociationParseID ident =
     (if length (split_on CHR '','' ident) \<noteq> 2 \<or> [] \<in> set (split_on CHR '','' ident)
      then Inl (MalformedIdentity ident)
      else Inr (split_on CHR '','' ident ! 0, split_on CHR '','' ident ! 1)) \<and>
   ((\<exists>a b. CustomDomainAssociationParseID ident = Inr (a, b)) \<longleftrightarrow>
    (\<exists>a b. ident = a @ '','' @ b \<and> a \<noteq> [] \<and> b \<noteq> []
        \<and> CHR '','' \<notin> set a \<and> CHR '','' \<notin> set b))"
proof
  show "CustomDomainAssociationParseID ident =
     (if length (split_on CHR '','' ident) \<noteq> 2 \<or> [] \<in> set (split_on CHR '','' ident)
      then Inl (MalformedIdentity ident)
      else Inr (split_on CHR '','' ident ! 0, split_on CHR '','' ident ! 1))"
    by (auto simp: CustomDomainAssociationParseID_def split: list.splits)
next
  show "(\<exists>a b. CustomDomainAssociationParseID ident = Inr (a, b)) \<longleftrightarrow>
    (\<exists>a b. ident = a @ '','' @ b \<and> a \<noteq> [] \<and> b \<noteq> []
        \<and> CHR '','' \<notin> set a \<and> CHR '','' \<notin> set b)"
    using ParseID_Inr_iff [of ident] by blast
qed

theorem ParseID_malformed_iff_witness:
  "CustomDomainAssociationParseID ''malformed-no-delimiter''
     = Inl (MalformedIdentity ''malformed-no-delimiter'') \<and>
   CustomDomainAssociationParseID ''a,b,c'' = Inl (MalformedIdentity ''a,b,c'') \<and>
   CustomDomainAssociationParseID '',svc-1'' = Inl (MalformedIdentity '',svc-1'') \<and>
   CustomDomainAssociationParseID ''not a domain,not an arn''
     = Inr (''not a domain'', ''not an arn'')"
  using ParseID_malformed_iff [of "''malformed-no-delimiter''"]
    ParseID_malformed_iff [of "''a,b,c''"]
    ParseID_malformed_iff [of "'',svc-1''"]
    ParseID_malformed_iff [of "''not a domain,not an arn''"]
  by simp

section \<open>Properties of the waiter\<close>

lemma waiter_loop_fails_at:
  assumes "probe (n + k) = Inr (StatusValue s)"
    and "s \<in> failure cfg" and "StatusValue s \<notin> success cfg"
    and "\<forall>j<k. keeps_polling cfg probe (elapsed + j * interval cfg) (n + j)"
  shows "waiter_loop cfg probe n elapsed = Some (Failed s, Suc (n + k))"
  using assms
proof (induction k arbitrary: n elapsed)
  case 0
  then show ?case by (subst waiter_loop.simps) simp
next
  case (Suc k)
  from Suc.prems(4) have first: "keeps_polling cfg probe elapsed n"
    by (metis add.right_neutral mult_zero_left zero_less_Suc)
  have rest: "\<forall>j<k. keeps_polling cfg probe
      ((elapsed + interval cfg) + j * interval cfg) (Suc n + j)"
  proof (intro allI impI)
    fix j assume "j < k"
    then have "Suc j < Suc k" by simp
    with Suc.prems(4)
    have "keeps_polling cfg probe (elapsed + Suc j * interval cfg) (n + Suc j)"
      by blast
    then show "keeps_polling cfg probe
        ((elapsed + interval cfg) + j * interval cfg) (Suc n + j)"
      by (simp add: add.assoc)
  qed
  from Suc.prems(1) have at_k: "probe (Suc n + k) = Inr (StatusValue s)" by simp
  have "waiter_loop cfg probe (Suc n) (elapsed + interval cfg)
      = Some (Failed s, Suc (Suc n + k))"
    by (rule Suc.IH [OF at_k Suc.prems(2) Suc.prems(3) rest])
  moreover have "waiter_loop cfg probe n elapsed
      = waiter_loop cfg probe (Suc n) (elapsed + interval cfg)"
    using first by (subst waiter_loop.simps) (auto simp: keeps_polling_def split: sum.splits)
  ultimately show ?case by simp
qed

text \<open>
  C8. As soon as the waiter observes a status of the terminal-failure set it ends in
  \<open>Failed\<close>, with an error naming that status, at that very observation and whatever the
  deadline is: if the probes before probe \<open>k\<close> kept the loop polling and probe \<open>k\<close>
  observes a status \<open>s\<close> of the failure set (that is not also a success observation,
  which the loop tests first), the waiter returns \<open>Failed s\<close> after exactly \<open>k + 1\<close>
  probes. For the probe sequence pending, create-failed with the failure set
  \<open>{create-failed}\<close> that is the second probe.
\<close>

theorem Waiter_fails_at_failure_status:
  assumes "probe k = Inr (StatusValue s)"
    and "s \<in> failure cfg" and "StatusValue s \<notin> success cfg"
    and "\<forall>j<k. keeps_polling cfg probe (j * interval cfg) j"
  shows "\<exists>outcome. Waiter cfg probe = Some (outcome, Suc k) \<and> outcome = Failed s \<and>
           outcome_error outcome = Some (TerminalFailureError s)"
  using waiter_loop_fails_at [of probe 0 k s cfg 0] assms
  by (simp add: Waiter_def)

theorem Waiter_fails_at_failure_status_witness:
  "Waiter sample_config sample_probe = Some (Failed ''create-failed'', 2) \<and>
   2 * interval sample_config < deadline sample_config"
  using Waiter_fails_at_failure_status [of sample_probe 1 "''create-failed''" sample_config]
  by (simp add: sample_config_def sample_probe_def keeps_polling_def)

section \<open>Properties of Read\<close>

lemma Read_keeps_id_when_new:
  "IsNewResource d \<Longrightarrow> IdAttr (fst (resourceCustomDomainAssociationRead d conn)) = IdAttr d"
  by (auto simp: resourceCustomDomainAssociationRead_def split: sum.splits prod.splits option.splits)

text \<open>
  C1. The claim: when \<open>FindCustomDomain\<close> fails with an error that is not a not-found
  error, Read returns that error and does not drop the resource. The code does not do
  so: Read never tests \<open>err != nil\<close>, so for a resource that is not new a remote error
  with no custom domain falls into the \<open>customDomain == nil\<close> branch, the identifier is
  cleared and no diagnostic is returned. Evaluated here on an existing resource and an
  access-denied failure.
\<close>

theorem Read_remote_error_drops_state:
  "resourceCustomDomainAssociationRead existing_resource
     (sample_client\<lparr>FindCustomDomain :=
        (\<lambda>domainName serviceArn. (None, Some (RemoteError ''AccessDeniedException'')))\<rparr>)
   = (existing_resource\<lparr>IdAttr := []\<rparr>, [])"
  by (simp add: resourceCustomDomainAssociationRead_def existing_resource_def
      CustomDomainAssociationParseID_def sample_client_def)

text \<open>
  C4. When \<open>FindCustomDomain\<close> fails with a not-found error on a well-formed identifier:
  for a resource that is not new, Read clears the identifier (the resource is absent and
  the caller drops it) and returns no diagnostic; for a new resource (Read called by
  Create after the wait succeeded), where the failed call returned no custom domain,
  Read keeps the resource data as it is and returns the error "empty output after
  creation", not absence.
\<close>

theorem Read_not_found:
  assumes "CustomDomainAssociationParseID (IdAttr d) = Inr (domainName, serviceArn)"
    and "FindCustomDomain conn domainName serviceArn = (customDomain, err)"
    and "IsA_ResourceNotFoundException err"
  shows "(\<not> IsNewResource d \<longrightarrow>
            resourceCustomDomainAssociationRead d conn = (d\<lparr>IdAttr := []\<rparr>, [])) \<and>
         (IsNewResource d \<and> customDomain = None \<longrightarrow>
            resourceCustomDomainAssociationRead d conn =
              (d, Errorf (''reading App Runner Custom Domain Association ('' @ IdAttr d
                          @ ''): empty output after creation'')))"
  using assms by (simp add: resourceCustomDomainAssociationRead_def)

theorem Read_not_found_witness:
  "resourceCustomDomainAssociationRead existing_resource
     (sample_client\<lparr>FindCustomDomain :=
        (\<lambda>domainName serviceArn. (None, Some (ResourceNotFoundException ''gone'')))\<rparr>)
     = (existing_resource\<lparr>IdAttr := []\<rparr>, []) \<and>
   resourceCustomDomainAssociationRead (existing_resource\<lparr>IsNewResource := True\<rparr>)
     (sample_client\<lparr>FindCustomDomain :=
        (\<lambda>domainName serviceArn. (None, Some (ResourceNotFoundException ''gone'')))\<rparr>)
     = (existing_resource\<lparr>IsNewResource := True\<rparr>,
        Errorf (''reading App Runner Custom Domain Association (example.com,svc-1)''
                @ '': empty output after creation''))"
  using Read_not_found [of existing_resource "''example.com''" "''svc-1''"
      "sample_client\<lparr>FindCustomDomain :=
        (\<lambda>domainName serviceArn. (None, Some (ResourceNotFoundException ''gone'')))\<rparr>"
      None "Some (ResourceNotFoundException ''gone'')"]
    Read_not_found [of "existing_resource\<lparr>IsNewResource := True\<rparr>"
      "''example.com''" "''svc-1''"
      "sample_client\<lparr>FindCustomDomain :=
        (\<lambda>domainName serviceArn. (None, Some (ResourceNotFoundException ''gone'')))\<rparr>"
      None "Some (ResourceNotFoundException ''gone'')"]
  by (simp add: existing_resource_def sample_client_def CustomDomainAssociationParseID_def)

section \<open>Properties of Create\<close>

text \<open>
  C5. When the associate call fails, Create returns one error diagnostic that carries the
  text of the error, and records nothing: the resource data is returned as it was, so
  neither the identifier nor \<open>dns_target\<close> is set.
\<close>

theorem Create_associate_error:
  assumes "AssociateCustomDomain conn (domain_name d) (enable_www_subdomain d) (service_arn d)
             = (output, Some err)"
  shows "resourceCustomDomainAssociationCreate d conn =
           Some (d, Errorf (''associating App Runner Custom Domain ('' @ domain_name d
                    @ '') for Service ('' @ service_arn d @ ''): '' @ error_message err))"
  using assms by (simp add: resourceCustomDomainAssociationCreate_def)

theorem Create_associate_error_witness:
  "resourceCustomDomainAssociationCreate planned_resource
     (sample_client\<lparr>AssociateCustomDomain :=
        (\<lambda>domainName enable serviceArn. (None, Some (RemoteError ''InternalServiceError'')))\<rparr>)
   = Some (planned_resource,
           Errorf (''associating App Runner Custom Domain (Example.COM) for Service (svc-1)''
                   @ '': InternalServiceError'')) \<and>
   IdAttr planned_resource = [] \<and> dns_target planned_resource = []"
  using Create_associate_error [of
      "sample_client\<lparr>AssociateCustomDomain :=
        (\<lambda>domainName enable serviceArn. (None, Some (RemoteError ''InternalServiceError'')))\<rparr>"
      planned_resource None "RemoteError ''InternalServiceError''"]
  by (simp add: planned_resource_def sample_client_def)

text \<open>
  C3. When the associate call succeeds and the wait for creation then returns an error
  (a terminal failure or a timeout), Create returns that error in a diagnostic and the
  identifier stays set: the resource data returned has the identifier built from the
  response, which is not empty.
\<close>

theorem Create_wait_error_keeps_identity:
  assumes "AssociateCustomDomain conn (domain_name d) (enable_www_subdomain d) (service_arn d)
             = (Some output, None)"
    and "out_CustomDomain output = Some cd"
    and "WaitCustomDomainAssociationCreated conn (domain_name d) (service_arn d) = Some err"
  shows "\<exists>d'. resourceCustomDomainAssociationCreate d conn =
             Some (d', Errorf (''waiting for App Runner Custom Domain Association (''
                          @ IdAttr d' @ '') creation: '' @ error_message err)) \<and>
           IdAttr d' = Encode (ToString (cd_DomainName cd)) (ToString (out_ServiceArn output)) \<and>
           IdAttr d' \<noteq> []"
  using assms by (simp add: resourceCustomDomainAssociationCreate_def Encode_def)

theorem Create_wait_error_keeps_identity_witness:
  "resourceCustomDomainAssociationCreate planned_resource
     (sample_client\<lparr>WaitCustomDomainAssociationCreated :=
        (\<lambda>domainName serviceArn. Some (TerminalFailureError ''create_failed''))\<rparr>)
   = Some (planned_resource\<lparr>IdAttr := ''example.com,svc-1'',
                             dns_target := ''abc.awsapprunner.com''\<rparr>,
           Errorf (''waiting for App Runner Custom Domain Association (example.com,svc-1)''
                   @ '' creation: unexpected state create_failed''))"
  using Create_wait_error_keeps_identity [of
      "sample_client\<lparr>WaitCustomDomainAssociationCreated :=
        (\<lambda>domainName serviceArn. Some (TerminalFailureError ''create_failed''))\<rparr>"
      planned_resource sample_output sample_domain "TerminalFailureError ''create_failed''"]
  by (simp add: resourceCustomDomainAssociationCreate_def planned_resource_def
      sample_client_def sample_output_def sample_domain_def Encode_def ToString_def)

text \<open>
  C9. The identifier recorded by Create is built from the domain name and the service
  identifier of the associate response, not from the arguments of the caller: whenever
  the associate call succeeds, the data returned by Create (with or without
  diagnostics) has the identifier made of the response's values. Create runs on resource
  data marked as new, as the plugin SDK hands it over. In the sample the caller asks for
  \<open>Example.COM\<close>, the response says \<open>example.com\<close>, and the identifier is
  \<open>example.com,svc-1\<close>.
\<close>

theorem Create_identity_from_response:
  assumes "IsNewResource d"
    and "AssociateCustomDomain conn (domain_name d) (enable_www_subdomain d) (service_arn d)
             = (Some output, None)"
    and "out_CustomDomain output = Some cd"
  shows "\<exists>d' ds. resourceCustomDomainAssociationCreate d conn = Some (d', ds) \<and>
           IdAttr d' = Encode (ToString (cd_DomainName cd)) (ToString (out_ServiceArn output))"
proof (cases "WaitCustomDomainAssociationCreated conn (domain_name d) (service_arn d)")
  case (Some err)
  with assms show ?thesis by (simp add: resourceCustomDomainAssociationCreate_def)
next
  case None
  define d2 where "d2 = d\<lparr>IdAttr := Encode (ToString (cd_DomainName cd))
        (ToString (out_ServiceArn output)),
      dns_target := ToString (out_DNSTarget output)\<rparr>"
  have "IsNewResource d2" using assms(1) by (simp add: d2_def)
  then have "IdAttr (fst (resourceCustomDomainAssociationRead d2 conn)) = IdAttr d2"
    by (rule Read_keeps_id_when_new)
  moreover have "resourceCustomDomainAssociationCreate d conn
      = Some (resourceCustomDomainAssociationRead d2 conn)"
    using assms None by (simp add: resourceCustomDomainAssociationCreate_def d2_def)
  ultimately show ?thesis
    by (cases "resourceCustomDomainAssociationRead d2 conn") (simp add: d2_def)
qed

theorem Create_identity_from_response_witness:
  "domain_name planned_resource = ''Example.COM'' \<and>
   (\<exists>d' ds. resourceCustomDomainAssociationCreate planned_resource sample_client
               = Some (d', ds) \<and> IdAttr d' = ''example.com,svc-1'')"
  using Create_identity_from_response [of planned_resource sample_client
      sample_output sample_domain]
  by (simp add: planned_resource_def sample_client_def sample_output_def sample_domain_def
      Encode_def ToString_def)

section \<open>Properties of Delete\<close>

text \<open>
  C2. Delete is idempotent. On a well-formed identifier, if the disassociate call fails
  with a not-found error, or if it succeeds and the wait for deletion returns a
  not-found error, Delete returns no diagnostic and leaves the resource data as it is;
  running Delete again on that data, when the remote side reports the association as
  not found, again returns no diagnostic.
\<close>

theorem Delete_idempotent:
  assumes "CustomDomainAssociationParseID (IdAttr d) = Inr (domainName, serviceArn)"
    and "IsA_ResourceNotFoundException (DisassociateCustomDomain conn domainName serviceArn)
         \<or> (DisassociateCustomDomain conn domainName serviceArn = None
            \<and> IsA_ResourceNotFoundException
                 (WaitCustomDomainAssociationDeleted conn domainName serviceArn))"
    and "IsA_ResourceNotFoundException (DisassociateCustomDomain conn' domainName serviceArn)"
  shows "resourceCustomDomainAssociationDelete d conn = (d, []) \<and>
         resourceCustomDomainAssociationDelete
           (fst (resourceCustomDomainAssociationDelete d conn)) conn' = (d, [])"
proof -
  have one: "resourceCustomDomainAssociationDelete d conn = (d, [])"
    using assms(1,2)
    by (auto simp: resourceCustomDomainAssociationDelete_def split: option.splits)
  have two: "resourceCustomDomainAssociationDelete d conn' = (d, [])"
    using assms(1,3) by (simp add: resourceCustomDomainAssociationDelete_def)
  show ?thesis by (simp add: one two)
qed

theorem Delete_idempotent_witness:
  "resourceCustomDomainAssociationDelete existing_resource
     (sample_client\<lparr>WaitCustomDomainAssociationDeleted :=
        (\<lambda>domainName serviceArn. Some (ResourceNotFoundException ''gone''))\<rparr>)
     = (existing_resource, []) \<and>
   resourceCustomDomainAssociationDelete
     (fst (resourceCustomDomainAssociationDelete existing_resource
        (sample_client\<lparr>WaitCustomDomainAssociationDeleted :=
           (\<lambda>domainName serviceArn. Some (ResourceNotFoundException ''gone''))\<rparr>)))
     (sample_client\<lparr>DisassociateCustomDomain :=
        (\<lambda>domainName serviceArn. Some (ResourceNotFoundException ''gone''))\<rparr>)
     = (existing_resource, [])"
  using Delete_idempotent [of existing_resource "''example.com''" "''svc-1''"
      "sample_client\<lparr>WaitCustomDomainAssociationDeleted :=
           (\<lambda>domainName serviceArn. Some (ResourceNotFoundException ''gone''))\<rparr>"
      "sample_client\<lparr>DisassociateCustomDomain :=
        (\<lambda>domainName serviceArn. Some (ResourceNotFoundException ''gone''))\<rparr>"]
  by (simp add: existing_resource_def sample_client_def CustomDomainAssociationParseID_def
      resourceCustomDomainAssociationDelete_def)

end
